theory Spec2Isabelle
  imports Complex_Main
begin

section \<open>Numeric values\<close>

text \<open>
  The program of \<^verbatim>\<open>elastic_nr.py\<close> computes with IEEE doubles. The embedding idealises
  a finite double as a real number (no rounding, no overflow, one zero) and keeps the three
  special values that the code can produce without raising: the two infinities and NaN.
  Values that went through NumPy (\<^verbatim>\<open>np.sqrt\<close>, \<^verbatim>\<open>np.sin\<close>, an operation with a
  NumPy operand) are of type \<open>f64\<close>: NumPy divides by zero without raising. The scalar
  parameters \<^verbatim>\<open>mw\<close>, \<^verbatim>\<open>v\<close>, \<^verbatim>\<open>sigma_nucleon\<close> and the unit constants are finite
  Python floats, of type \<open>real\<close>: Python raises \<^verbatim>\<open>ZeroDivisionError\<close> there. The recoil
  energy \<^verbatim>\<open>erec\<close> is a NumPy scalar (an element of the array the caller passes), and the
  mediator mass \<^verbatim>\<open>m_med\<close> may be \<^verbatim>\<open>float('inf')\<close>; both are of type \<open>f64\<close>.
\<close>

datatype f64 = Fin real | PInf | NInf | NaN

definition signed_inf :: "real \<Rightarrow> f64" where
  "signed_inf s = (if 0 < s then PInf else if s < 0 then NInf else NaN)"

fun sign_of :: "f64 \<Rightarrow> real" where
  "sign_of (Fin a) = a"
| "sign_of PInf = 1"
| "sign_of NInf = - 1"
| "sign_of NaN = 0"

fun f_neg :: "f64 \<Rightarrow> f64" where
  "f_neg (Fin a) = Fin (- a)"
| "f_neg PInf = NInf"
| "f_neg NInf = PInf"
| "f_neg NaN = NaN"

fun f_add :: "f64 \<Rightarrow> f64 \<Rightarrow> f64" where
  "f_add (Fin a) (Fin b) = Fin (a + b)"
| "f_add NaN y = NaN"
| "f_add x NaN = NaN"
| "f_add PInf NInf = NaN"
| "f_add NInf PInf = NaN"
| "f_add PInf y = PInf"
| "f_add NInf y = NInf"
| "f_add x PInf = PInf"
| "f_add x NInf = NInf"

definition f_sub :: "f64 \<Rightarrow> f64 \<Rightarrow> f64" where
  "f_sub x y = f_add x (f_neg y)"

fun f_mul :: "f64 \<Rightarrow> f64 \<Rightarrow> f64" where
  "f_mul (Fin a) (Fin b) = Fin (a * b)"
| "f_mul NaN y = NaN"
| "f_mul x NaN = NaN"
| "f_mul x y = signed_inf (sign_of x * sign_of y)"

text \<open>NumPy's true division: a zero divisor gives an infinity or NaN, never an exception.\<close>

fun f_div :: "f64 \<Rightarrow> f64 \<Rightarrow> f64" where
  "f_div (Fin a) (Fin b) = (if b = 0 then signed_inf a else Fin (a / b))"
| "f_div NaN y = NaN"
| "f_div x NaN = NaN"
| "f_div (Fin a) y = Fin 0"
| "f_div x (Fin b) = signed_inf (sign_of x * (if b < 0 then - 1 else 1))"
| "f_div x y = NaN"

text \<open>\<^verbatim>\<open>x ** k\<close> for an integer \<open>k\<close>.\<close>

fun f_powi :: "f64 \<Rightarrow> int \<Rightarrow> f64" where
  "f_powi (Fin a) k = (if a = 0 \<and> k < 0 then PInf else Fin (a powi k))"
| "f_powi PInf k = (if 0 < k then PInf else if k = 0 then Fin 1 else Fin 0)"
| "f_powi NInf k =
     (if 0 < k then (if even k then PInf else NInf) else if k = 0 then Fin 1 else Fin 0)"
| "f_powi NaN k = (if k = 0 then Fin 1 else NaN)"

fun np_sqrt :: "f64 \<Rightarrow> f64" where
  "np_sqrt (Fin a) = (if a < 0 then NaN else Fin (sqrt a))"
| "np_sqrt PInf = PInf"
| "np_sqrt NInf = NaN"
| "np_sqrt NaN = NaN"

text \<open>\<^verbatim>\<open>x ** 0.5\<close> on a NumPy scalar.\<close>

fun np_pow_half :: "f64 \<Rightarrow> f64" where
  "np_pow_half (Fin a) = (if a < 0 then NaN else Fin (sqrt a))"
| "np_pow_half PInf = PInf"
| "np_pow_half NInf = PInf"
| "np_pow_half NaN = NaN"

fun np_sin :: "f64 \<Rightarrow> f64" where
  "np_sin (Fin a) = Fin (sin a)"
| "np_sin _ = NaN"

fun np_cos :: "f64 \<Rightarrow> f64" where
  "np_cos (Fin a) = Fin (cos a)"
| "np_cos _ = NaN"

fun np_exp :: "f64 \<Rightarrow> f64" where
  "np_exp (Fin a) = Fin (exp a)"
| "np_exp PInf = PInf"
| "np_exp NInf = Fin 0"
| "np_exp NaN = NaN"

text \<open>\<^verbatim>\<open>x >= y\<close>: false as soon as one side is NaN.\<close>

fun f_ge :: "f64 \<Rightarrow> f64 \<Rightarrow> bool" where
  "f_ge (Fin a) (Fin b) = (b \<le> a)"
| "f_ge NaN y = False"
| "f_ge x NaN = False"
| "f_ge PInf y = True"
| "f_ge x NInf = True"
| "f_ge x y = False"

section \<open>Errors\<close>

text \<open>
  Every \<^verbatim>\<open>raise\<close> of the source is a value \<open>Inl e\<close>. A \<^verbatim>\<open>KeyError\<close> carries the key that
  was missing, a \<^verbatim>\<open>ValueError\<close> what its message says: \<open>Invalid_A\<close> is
  \<^verbatim>\<open>"Invalid value of A!"\<close>, \<open>Momentum_Params n q_ref\<close> is the message of
  \<^verbatim>\<open>_warn_momentum_dependence\<close> with the two values it prints,
  \<open>Unsupported_Interaction s\<close> is \<^verbatim>\<open>"Unsupported DM-nucleus interaction '%s'"\<close>, and
  \<open>Unpack k\<close> is the message of Python's tuple unpacking when \<open>k\<close> values arrive where
  three names wait.
\<close>

datatype key = Name string | Triple nat string string

datatype message =
    Invalid_A
  | Momentum_Params "int option" "real option"
  | Unsupported_Interaction string
  | Unpack nat

datatype error =
    ValueError message
  | NotImplementedError string
  | KeyError key
  | ZeroDivisionError

definition ebind :: "error + 'a \<Rightarrow> ('a \<Rightarrow> error + 'b) \<Rightarrow> error + 'b" where
  "ebind m f = (case m of Inl e \<Rightarrow> Inl e | Inr x \<Rightarrow> f x)"

text \<open>Python's \<^verbatim>\<open>/\<close> on two floats.\<close>

definition py_div :: "real \<Rightarrow> real \<Rightarrow> error + real" where
  "py_div a b = (if b = 0 then Inl ZeroDivisionError else Inr (a / b))"

section \<open>Unit constants and tables\<close>

text \<open>
  The constants of \<^verbatim>\<open>numericalunits\<close> that the module reads (\<^verbatim>\<open>nu.c0\<close>, \<^verbatim>\<open>nu.keV\<close>,
  \<^verbatim>\<open>nu.MeV\<close>, \<^verbatim>\<open>nu.GeV\<close>, \<^verbatim>\<open>nu.amu\<close>, \<^verbatim>\<open>nu.mp\<close>) are parameters of the model.
\<close>

record units =
  c0 :: real
  keV :: real
  MeV :: real
  GeV :: real
  amu :: real
  mp :: real

definition units_ok :: "units \<Rightarrow> bool" where
  "units_ok u \<longleftrightarrow> 0 < c0 u \<and> 0 < keV u \<and> 0 < MeV u \<and> 0 < GeV u \<and> 0 < amu u \<and> 0 < mp u"

text \<open>
  One concrete unit system, used where a statement is evaluated: SI base units equal to one, so
  \<^verbatim>\<open>c0\<close> is in m/s, the energies in joules and the masses in kilograms.
\<close>

definition units_SI :: units where
  "units_SI =
     \<lparr>c0 = 299792458,
      keV = 1602176634 / 10 ^ 25,
      MeV = 1602176634 / 10 ^ 22,
      GeV = 1602176634 / 10 ^ 19,
      amu = 166053906660 / 10 ^ 38,
      mp = 167262192369 / 10 ^ 38\<rparr>"

definition ATOMIC_WEIGHT :: "string \<rightharpoonup> real" where
  "ATOMIC_WEIGHT =
     [''Xe'' \<mapsto> 131.293, ''Ar'' \<mapsto> 39.948, ''Ge'' \<mapsto> 72.64, ''Si'' \<mapsto> 28.0855]"

definition Q_REF :: "units \<Rightarrow> error + real" where
  "Q_REF u = py_div (10000 * MeV u) (c0 u)"

section \<open>Kinematics\<close>

definition mn :: "units \<Rightarrow> string \<Rightarrow> error + real" where
  "mn u material =
     (case ATOMIC_WEIGHT material of
        None \<Rightarrow> Inl (KeyError (Name material))
      | Some w \<Rightarrow> Inr (w * amu u))"

definition reduced_mass :: "real \<Rightarrow> real \<Rightarrow> error + real" where
  "reduced_mass m1 m2 = py_div (m1 * m2) (m1 + m2)"

definition mu_nucleus :: "units \<Rightarrow> real \<Rightarrow> string \<Rightarrow> error + real" where
  "mu_nucleus u mw material = ebind (mn u material) (\<lambda>m. reduced_mass mw m)"

definition e_max :: "units \<Rightarrow> real \<Rightarrow> real \<Rightarrow> real option \<Rightarrow> error + real" where
  "e_max u mw v m_nucleus =
     ebind (case m_nucleus of None \<Rightarrow> mn u ''Xe'' | Some m \<Rightarrow> Inr m) (\<lambda>m.
     ebind (reduced_mass mw m) (\<lambda>r.
     py_div (2 * r\<^sup>2 * v\<^sup>2) m))"

definition vmin_elastic :: "units \<Rightarrow> f64 \<Rightarrow> real \<Rightarrow> string \<Rightarrow> error + f64" where
  "vmin_elastic u erec mw material =
     ebind (mn u material) (\<lambda>m.
     ebind (mu_nucleus u mw material) (\<lambda>mu.
     Inr (np_sqrt (f_div (f_mul (Fin m) erec) (Fin (2 * mu\<^sup>2))))))"

section \<open>Form factor\<close>

definition spherical_bessel_j1 :: "f64 \<Rightarrow> f64" where
  "spherical_bessel_j1 x = f_sub (f_div (np_sin x) (f_powi x 2)) (f_div (np_cos x) x)"

text \<open>
  The body of \<^verbatim>\<open>helm_form_factor_squared\<close> for one recoil energy. The energy is divided
  by \<^verbatim>\<open>nu.keV\<close> before the mass number is checked, as in the source.
\<close>

definition helm_form_factor_squared :: "units \<Rightarrow> f64 \<Rightarrow> real \<Rightarrow> error + f64" where
  "helm_form_factor_squared u erec anucl =
     (let en = f_div erec (Fin (keV u)) in
      if anucl \<le> 0 then Inl (ValueError Invalid_A)
      else
        ebind (py_div (GeV u) ((c0 u)\<^sup>2)) (\<lambda>gev_c2.
        ebind (py_div (amu u) gev_c2) (\<lambda>mnucl.
          let c = 1.23 * anucl powr (1 / 3) - 0.60;
              a = 0.52;
              s = 0.9;
              rn_sq = c\<^sup>2 + (7.0 / 3.0) * pi\<^sup>2 * a\<^sup>2 - 5 * s\<^sup>2;
              rn = np_sqrt (Fin rn_sq);
              mass_kev = anucl * mnucl * 1000000;
              hbarc_kevfm = 197327;
              q = np_sqrt (f_mul (f_mul en (Fin 2)) (Fin mass_kev));
              qrn_over_hbarc = f_div (f_mul q rn) (Fin hbarc_kevfm);
              sph_bess = spherical_bessel_j1 qrn_over_hbarc;
              retval = f_div (f_mul (f_mul (Fin 9) sph_bess) sph_bess)
                             (f_mul qrn_over_hbarc qrn_over_hbarc);
              qs_over_hbarc = f_div (f_mul q (Fin s)) (Fin hbarc_kevfm)
          in Inr (f_mul retval (np_exp (f_mul (f_neg qs_over_hbarc) qs_over_hbarc))))))"

section \<open>Structure functions\<close>

text \<open>
  The pickled table \<^verbatim>\<open>sd/structure_f_erec_xe.pkl\<close> is a parameter: its energy grid
  \<^verbatim>\<open>_energies\<close> and, for each key (A, coupling, assumption), the values on that grid.
  \<^verbatim>\<open>interp1d\<close> is SciPy's; the model follows its documentation for the default linear
  kind with \<^verbatim>\<open>bounds_error=False\<close>: a point below the smallest or above the largest grid
  point evaluates to \<^verbatim>\<open>fill_value\<close>, a point inside the grid to the chord between its
  neighbours, and NaN stays NaN. The spec describes the interpolant in the same way: linear
  between samples, zero outside the sampled domain. SciPy refuses an empty grid when the
  module is loaded, so the grid of a loaded module has a smallest and a largest point.
\<close>

record s_data =
  s_energies :: "real list"
  s_values :: "nat \<times> string \<times> string \<rightharpoonup> real list"

fun chord :: "(real \<times> real) list \<Rightarrow> real \<Rightarrow> real" where
  "chord ((x0, y0) # (x1, y1) # ps) x =
     (if x \<le> x1 then y0 + (x - x0) * ((y1 - y0) / (x1 - x0))
      else chord ((x1, y1) # ps) x)"
| "chord [(x0, y0)] x = y0"
| "chord [] x = 0"

definition interp1d :: "real list \<Rightarrow> real list \<Rightarrow> real \<Rightarrow> f64 \<Rightarrow> f64" where
  "interp1d xs ys fill_value x_new =
     (case x_new of
        Fin x \<Rightarrow>
          if x < Min (set xs) \<or> Max (set xs) < x then Fin fill_value
          else Fin (chord (sort_key fst (zip xs ys)) x)
      | PInf \<Rightarrow> Fin fill_value
      | NInf \<Rightarrow> Fin fill_value
      | NaN \<Rightarrow> NaN)"

definition structure_functions ::
  "s_data \<Rightarrow> nat \<times> string \<times> string \<Rightarrow> error + (f64 \<Rightarrow> f64)" where
  "structure_functions sd k =
     (case s_values sd k of
        None \<Rightarrow> (case k of (A, coupling, s_assumption) \<Rightarrow>
                   Inl (KeyError (Triple A coupling s_assumption)))
      | Some v \<Rightarrow> Inr (interp1d (s_energies sd) v 0))"

definition spin_isotopes :: "(nat \<times> real \<times> real \<times> real) list" where
  "spin_isotopes =
     [(129, 128.9047794, 1 / 2, 26.401 / 100),
      (131, 130.9050824, 3 / 2, 21.232 / 100)]"

section \<open>Cross section\<close>

definition mediator_factor :: "units \<Rightarrow> f64 \<Rightarrow> f64 \<Rightarrow> string \<Rightarrow> error + f64" where
  "mediator_factor u erec m_med material =
     (if m_med = PInf then Inr (Fin 1)
      else
        ebind (mn u material) (\<lambda>m.
          let q = np_pow_half (f_mul (Fin (2 * m)) erec)
          in Inr (f_div (f_powi m_med 4)
                        (f_powi (f_add (f_powi m_med 2) (f_powi (f_div q (Fin (c0 u))) 2)) 2))))"

definition extra_momentum_factor ::
  "units \<Rightarrow> f64 \<Rightarrow> f64 \<Rightarrow> string \<Rightarrow> int \<Rightarrow> real \<Rightarrow> error + f64" where
  "extra_momentum_factor u erec m_med material n q_ref =
     ebind (mn u material) (\<lambda>m.
       let q = np_pow_half (f_mul (Fin (2 * m)) erec);
           q = f_div q (Fin (c0 u))
       in
         ebind (py_div (q_ref * MeV u) (c0 u)) (\<lambda>q_ref_c.
         ebind (py_div q_ref_c (GeV u)) (\<lambda>q_ref.
           if m_med = PInf then Inr (f_powi (f_div q (Fin q_ref)) (2 * n))
           else Inr (f_mul (f_powi (f_div q (Fin q_ref)) (2 * n))
                           (f_div (f_add (Fin (q_ref\<^sup>2)) (f_powi m_med 2))
                                  (f_add (f_powi q 2) (f_powi m_med 2)))))))"

text \<open>Python's \<^verbatim>\<open>str.split(sep)\<close> for a separator of one character.\<close>

fun split :: "char \<Rightarrow> string \<Rightarrow> string list" where
  "split sep [] = [[]]"
| "split sep (c # cs) =
     (if c = sep then [] # split sep cs
      else (case split sep cs of [] \<Rightarrow> [[c]] | w # ws \<Rightarrow> (c # w) # ws))"

definition startswith :: "string \<Rightarrow> string \<Rightarrow> bool" where
  "startswith s p \<longleftrightarrow> take (length p) s = p"

text \<open>The loop over \<^verbatim>\<open>spin_isotopes\<close> in the spin-dependent branch, \<open>result\<close> its accumulator.\<close>

fun sd_loop ::
  "units \<Rightarrow> s_data \<Rightarrow> f64 \<Rightarrow> real \<Rightarrow> real \<Rightarrow> real \<Rightarrow> string \<Rightarrow> string \<Rightarrow>
   (nat \<times> real \<times> real \<times> real) list \<Rightarrow> f64 \<Rightarrow> error + f64" where
  "sd_loop u sd erec v mw sigma_nucleon coupling s_assumption [] result = Inr result"
| "sd_loop u sd erec v mw sigma_nucleon coupling s_assumption
       ((A, mn_isotope, J, abundance) # rest) result =
     (let mn_isotope = mn_isotope * amu u in
      ebind (structure_functions sd (A, coupling, s_assumption)) (\<lambda>s.
      ebind (reduced_mass mw mn_isotope) (\<lambda>mu_isotope.
      ebind (reduced_mass mw (mp u)) (\<lambda>mu_proton.
      ebind (py_div (sigma_nucleon * 4 * pi * mu_isotope\<^sup>2)
                    (3 * mu_proton\<^sup>2 * (2 * J + 1))) (\<lambda>x.
      ebind (e_max u mw v (Some mn_isotope)) (\<lambda>em.
      ebind (py_div (abundance * x) em) (\<lambda>d.
        sd_loop u sd erec v mw sigma_nucleon coupling s_assumption rest
          (f_add result (f_mul (Fin d) (s (f_div erec (Fin (keV u)))))))))))))"

text \<open>
  The two branches of \<^verbatim>\<open>sigma_erec\<close>, each the value of \<^verbatim>\<open>result\<close> before the mediator
  factor: \<open>sigma_SI\<close> for \<^verbatim>\<open>interaction == 'SI'\<close>, \<open>sigma_SD\<close> for
  \<^verbatim>\<open>interaction.startswith('SD')\<close>. \<^verbatim>\<open>helm_form_factor_squared\<close> is called on one
  recoil energy.
\<close>

definition sigma_SI ::
  "units \<Rightarrow> f64 \<Rightarrow> real \<Rightarrow> real \<Rightarrow> real \<Rightarrow> string \<Rightarrow> error + f64" where
  "sigma_SI u erec v mw sigma_nucleon material =
     ebind (mu_nucleus u mw material) (\<lambda>mu.
     ebind (reduced_mass (amu u) mw) (\<lambda>mu_nucleon.
     ebind (py_div mu mu_nucleon) (\<lambda>ratio.
     ebind (case ATOMIC_WEIGHT material of
              None \<Rightarrow> Inl (KeyError (Name material)) | Some w \<Rightarrow> Inr w) (\<lambda>w.
       let sigma_nucleus = sigma_nucleon * ratio\<^sup>2 * w\<^sup>2 in
       ebind (mn u material) (\<lambda>m.
       ebind (e_max u mw v (Some m)) (\<lambda>em.
       ebind (py_div sigma_nucleus em) (\<lambda>d.
       ebind (helm_form_factor_squared u erec w) (\<lambda>h.
         Inr (f_mul (Fin d) h)))))))))"

definition sigma_SD ::
  "units \<Rightarrow> s_data \<Rightarrow> f64 \<Rightarrow> real \<Rightarrow> real \<Rightarrow> real \<Rightarrow> string \<Rightarrow> string \<Rightarrow> error + f64" where
  "sigma_SD u sd erec v mw sigma_nucleon interaction material =
     (if material \<noteq> ''Xe'' then Inl (NotImplementedError material)
      else
        (case split CHR ''_'' interaction of
           [_, coupling, s_assumption] \<Rightarrow>
             sd_loop u sd erec v mw sigma_nucleon coupling s_assumption spin_isotopes (Fin 0)
         | parts \<Rightarrow> Inl (ValueError (Unpack (length parts)))))"

definition sigma_erec ::
  "units \<Rightarrow> s_data \<Rightarrow> f64 \<Rightarrow> real \<Rightarrow> real \<Rightarrow> real \<Rightarrow> string \<Rightarrow> f64 \<Rightarrow> string \<Rightarrow>
   int option \<Rightarrow> real option \<Rightarrow> error + f64" where
  "sigma_erec u sd erec v mw sigma_nucleon interaction m_med material n q_ref =
     ebind
       (if interaction = ''SI'' then sigma_SI u erec v mw sigma_nucleon material
        else if startswith interaction ''SD''
          then sigma_SD u sd erec v mw sigma_nucleon interaction material
        else Inl (ValueError (Unsupported_Interaction interaction))) (\<lambda>result.
     ebind (mediator_factor u erec m_med material) (\<lambda>mf.
       let result = f_mul result mf in
       (case (n, q_ref) of
          (Some n', Some q_ref') \<Rightarrow>
            ebind (extra_momentum_factor u erec m_med material n' q_ref') (\<lambda>ef.
              Inr (f_mul result ef))
        | _ \<Rightarrow> Inr result)))"

section \<open>Rate\<close>

text \<open>
  The halo model, \<^verbatim>\<open>wr.v_max\<close>, \<^verbatim>\<open>wr.StandardHaloModel\<close> and SciPy's \<^verbatim>\<open>quad\<close> are
  parameters. The integrator receives the integrand, the two bounds and the keyword
  arguments that \<^verbatim>\<open>rate_elastic\<close> passes through, of an arbitrary type \<open>'k\<close>; the
  model takes from it the first component of what \<^verbatim>\<open>quad\<close> returns, or the exception
  that left it.
\<close>

record halo_model =
  v_esc :: real
  rho_dm :: real
  velocity_dist :: "real \<Rightarrow> real option \<Rightarrow> f64"

record 'k env =
  nu :: units
  sdata :: s_data
  v_max :: "real option \<Rightarrow> real \<Rightarrow> f64"
  StandardHaloModel :: halo_model
  quad :: "(real \<Rightarrow> error + f64) \<Rightarrow> f64 \<Rightarrow> f64 \<Rightarrow> 'k \<Rightarrow> error + f64"

definition warn_momentum_dependence :: "int option \<Rightarrow> real option \<Rightarrow> error + unit" where
  "warn_momentum_dependence n q_ref =
     (if (n = None) \<noteq> (q_ref = None) then Inl (ValueError (Momentum_Params n q_ref))
      else Inr ())"

definition rate_elastic ::
  "'k env \<Rightarrow> f64 \<Rightarrow> real \<Rightarrow> real \<Rightarrow> string \<Rightarrow> f64 \<Rightarrow> real option \<Rightarrow> string \<Rightarrow>
   halo_model option \<Rightarrow> int option \<Rightarrow> real option \<Rightarrow> 'k \<Rightarrow> error + f64" where
  "rate_elastic env erec mw sigma_nucleon interaction m_med t material halo n q_ref quad_kwargs =
     (let halo_model = (case halo of None \<Rightarrow> StandardHaloModel env | Some h \<Rightarrow> h) in
      ebind (vmin_elastic (nu env) erec mw material) (\<lambda>v_min.
        if f_ge v_min (v_max env t (v_esc halo_model)) then Inr (Fin 0)
        else
          ebind (warn_momentum_dependence n q_ref) (\<lambda>_.
            let integrand = (\<lambda>v.
                  ebind (sigma_erec (nu env) (sdata env) erec v mw sigma_nucleon
                           interaction m_med material n q_ref) (\<lambda>s.
                    Inr (f_mul (f_mul s (Fin v)) (velocity_dist halo_model v t))))
            in
              ebind (py_div (rho_dm halo_model) mw) (\<lambda>a.
              ebind (mn (nu env) material) (\<lambda>m.
              ebind (py_div 1 m) (\<lambda>b.
              ebind (quad env integrand v_min (v_max env t (v_esc halo_model)) quad_kwargs)
                (\<lambda>integral. Inr (f_mul (Fin (a * b)) integral))))))))"

section \<open>Vectorised calls\<close>

text \<open>
  Modelled from the spec: the first argument of a function that \<^verbatim>\<open>wr.vectorize_first\<close>
  decorates, which the spec describes as an explicit pair, a scalar or an array.
\<close>

datatype 'a arg = Scalar 'a | Array "'a list"

text \<open>
  Modelled from the spec: the loop of \<^verbatim>\<open>wr.vectorize_first\<close> over the elements of an
  array. The whole procedure is evaluated independently per element, in the order of the
  array; an exception of one element leaves the call (the spec: hard failures, no partial
  results).
\<close>

fun each :: "('a \<Rightarrow> error + 'b) \<Rightarrow> 'a list \<Rightarrow> error + 'b list" where
  "each f [] = Inr []"
| "each f (x # xs) = ebind (f x) (\<lambda>y. ebind (each f xs) (\<lambda>ys. Inr (y # ys)))"

text \<open>
  Modelled from the spec: the decorator \<^verbatim>\<open>wr.vectorize_first\<close>, which is not part of
  \<^verbatim>\<open>elastic_nr.py\<close>. A scalar first argument is passed to the function as it is; for an
  array first argument the results come back as an array of equal shape, in the same order.
\<close>

definition vectorize_first :: "('a \<Rightarrow> error + 'b) \<Rightarrow> 'a arg \<Rightarrow> error + 'b arg" where
  "vectorize_first f xs =
     (case xs of
        Scalar x \<Rightarrow> ebind (f x) (\<lambda>y. Inr (Scalar y))
      | Array l \<Rightarrow> ebind (each f l) (\<lambda>ys. Inr (Array ys)))"

text \<open>\<^verbatim>\<open>rate_elastic\<close> as the module exports it, under the decorator.\<close>

definition rate_elastic_vectorized ::
  "'k env \<Rightarrow> f64 arg \<Rightarrow> real \<Rightarrow> real \<Rightarrow> string \<Rightarrow> f64 \<Rightarrow> real option \<Rightarrow> string \<Rightarrow>
   halo_model option \<Rightarrow> int option \<Rightarrow> real option \<Rightarrow> 'k \<Rightarrow> error + f64 arg" where
  "rate_elastic_vectorized env erec mw sigma_nucleon interaction m_med t material halo n q_ref
       quad_kwargs =
     vectorize_first
       (\<lambda>e. rate_elastic env e mw sigma_nucleon interaction m_med t material halo n q_ref
              quad_kwargs) erec"

section \<open>Example inputs\<close>

text \<open>
  Concrete inputs for the statements that are evaluated below: a WIMP of 50 GeV, a xenon
  nucleus, the recoil energy at which the minimum velocity is a given speed, a small table of
  structure functions on the grid 0, 50, 100 keV, a halo model with an escape velocity of
  544 km/s seen from an Earth that moves at 232 km/s, and a midpoint rule as integrator.
\<close>

definition mw_example :: real where
  "mw_example = 50 * GeV units_SI / (c0 units_SI)\<^sup>2"

definition erec_at :: "real \<Rightarrow> real" where
  "erec_at v =
     2 * (mw_example * (131.293 * amu units_SI) / (mw_example + 131.293 * amu units_SI))\<^sup>2
       * v\<^sup>2 / (131.293 * amu units_SI)"

definition sd_example :: s_data where
  "sd_example =
     \<lparr>s_energies = [0, 50, 100],
      s_values = [(129, ''n'', ''central'') \<mapsto> [3 / 100, 1 / 100, 1 / 1000],
                  (131, ''n'', ''central'') \<mapsto> [2 / 100, 1 / 200, 1 / 2000]]\<rparr>"

definition halo_example :: halo_model where
  "halo_example =
     \<lparr>v_esc = 544000, rho_dm = 1, velocity_dist = (\<lambda>v t. Fin (1 / 1000000))\<rparr>"

definition midpoint :: "(real \<Rightarrow> error + f64) \<Rightarrow> f64 \<Rightarrow> f64 \<Rightarrow> unit \<Rightarrow> error + f64" where
  "midpoint f a b kwargs =
     (case (a, b) of
        (Fin a', Fin b') \<Rightarrow> ebind (f ((a' + b') / 2)) (\<lambda>y. Inr (f_mul y (Fin (b' - a'))))
      | _ \<Rightarrow> Inr NaN)"

definition env_example :: "unit env" where
  "env_example =
     \<lparr>nu = units_SI,
      sdata = sd_example,
      v_max = (\<lambda>t v_esc. Fin (v_esc + 232000)),
      StandardHaloModel = halo_example,
      quad = midpoint\<rparr>"

definition failing_quad :: "(real \<Rightarrow> error + f64) \<Rightarrow> f64 \<Rightarrow> f64 \<Rightarrow> unit \<Rightarrow> error + f64" where
  "failing_quad f a b kwargs = Inl ZeroDivisionError"

section \<open>Properties\<close>

subsection \<open>Basic facts\<close>

lemma ebind_Inr [simp]: "ebind (Inr x) f = f x"
  by (simp add: ebind_def)

lemma ebind_Inl [simp]: "ebind (Inl e) f = Inl e"
  by (simp add: ebind_def)

lemma f_mul_one: "f_mul x (Fin 1) = x"
  by (cases x) (simp_all add: signed_inf_def)

lemma ATOMIC_WEIGHT_pos: "ATOMIC_WEIGHT material = Some w \<Longrightarrow> 0 < w"
  by (auto simp: ATOMIC_WEIGHT_def split: if_splits)

lemma Xe_weight: "ATOMIC_WEIGHT ''Xe'' = Some 131.293"
  by (simp add: ATOMIC_WEIGHT_def)

lemma units_SI_ok: "units_ok units_SI"
  by (simp add: units_ok_def units_SI_def)

lemma mw_example_pos: "0 < mw_example"
  by (simp add: mw_example_def units_SI_def)

lemma ten_keV_pos: "0 < 10 * keV units_SI"
  by (simp add: units_SI_def)

lemma mn_table:
  assumes "ATOMIC_WEIGHT material = Some w"
  shows "mn u material = Inr (w * amu u)"
  using assms by (simp add: mn_def)

lemma mn_missing:
  assumes "ATOMIC_WEIGHT material = None"
  shows "mn u material = Inl (KeyError (Name material))"
  using assms by (simp add: mn_def)

lemma reduced_mass_pos:
  assumes "0 < m1" "0 < m2"
  shows "reduced_mass m1 m2 = Inr (m1 * m2 / (m1 + m2))" and "0 < m1 * m2 / (m1 + m2)"
  using assms by (simp_all add: reduced_mass_def py_div_def)

lemma kinematics_table:
  assumes "0 < amu u" "0 < mw" "ATOMIC_WEIGHT material = Some w"
  shows "mn u material = Inr (w * amu u)"
    and "mu_nucleus u mw material = Inr (mw * (w * amu u) / (mw + w * amu u))"
    and "0 < w * amu u"
    and "0 < mw * (w * amu u) / (mw + w * amu u)"
proof -
  have w: "0 < w" using assms(3) by (rule ATOMIC_WEIGHT_pos)
  show m: "mn u material = Inr (w * amu u)" using assms(3) by (rule mn_table)
  show mpos: "0 < w * amu u" using w assms(1) by simp
  show "mu_nucleus u mw material = Inr (mw * (w * amu u) / (mw + w * amu u))"
    using reduced_mass_pos(1)[OF assms(2) mpos] by (simp add: mu_nucleus_def m)
  show "0 < mw * (w * amu u) / (mw + w * amu u)"
    using reduced_mass_pos(2)[OF assms(2) mpos] .
qed

lemma e_max_value:
  assumes "0 < mw" "0 < m" "v \<noteq> 0"
  shows "\<exists>E. e_max u mw v (Some m) = Inr E \<and> E \<noteq> 0"
proof -
  have "reduced_mass mw m = Inr (mw * m / (mw + m))" and "0 < mw * m / (mw + m)"
    using reduced_mass_pos[OF assms(1,2)] by simp_all
  then show ?thesis using assms by (simp add: e_max_def py_div_def)
qed

subsection \<open>Minimum velocity and maximum recoil energy\<close>

lemma e_max_table:
  assumes "0 < amu u" "0 < mw" "ATOMIC_WEIGHT material = Some w"
  shows "e_max u mw v (Some (w * amu u))
           = Inr (2 * (mw * (w * amu u) / (mw + w * amu u))\<^sup>2 * v\<^sup>2 / (w * amu u))"
proof -
  define m where "m = w * amu u"
  have mpos: "0 < m" using kinematics_table(3)[OF assms] by (simp add: m_def)
  have "reduced_mass mw m = Inr (mw * m / (mw + m))"
    using reduced_mass_pos(1)[OF assms(2) mpos] .
  then have "e_max u mw v (Some m) = Inr (2 * (mw * m / (mw + m))\<^sup>2 * v\<^sup>2 / m)"
    using mpos by (simp add: e_max_def py_div_def)
  then show ?thesis by (simp only: m_def)
qed

lemma vmin_elastic_unfold:
  assumes "0 < amu u" "0 < mw" "ATOMIC_WEIGHT material = Some w"
  shows "vmin_elastic u erec mw material =
           Inr (np_sqrt (f_div (f_mul (Fin (w * amu u)) erec)
                               (Fin (2 * (mw * (w * amu u) / (mw + w * amu u))\<^sup>2))))"
  by (simp add: vmin_elastic_def kinematics_table(1,2)[OF assms])

lemma vmin_elastic_at_e_max:
  assumes "0 < amu u" "0 < mw" "0 \<le> v" "ATOMIC_WEIGHT material = Some w"
  shows "vmin_elastic u
           (Fin (2 * (mw * (w * amu u) / (mw + w * amu u))\<^sup>2 * v\<^sup>2 / (w * amu u)))
           mw material = Inr (Fin v)"
proof -
  define m where "m = w * amu u"
  define r where "r = mw * m / (mw + m)"
  note k = kinematics_table[OF assms(1,2,4), folded m_def, folded r_def]
  have mpos: "0 < m" and rpos: "0 < r" using k by simp_all
  have ne: "2 * r\<^sup>2 \<noteq> 0" using rpos by simp
  have eq: "m * (2 * r\<^sup>2 * v\<^sup>2 / m) / (2 * r\<^sup>2) = v\<^sup>2"
    using mpos rpos by simp
  note vm = vmin_elastic_unfold[OF assms(1,2,4), folded m_def, folded r_def]
  have "f_div (f_mul (Fin m) (Fin (2 * r\<^sup>2 * v\<^sup>2 / m))) (Fin (2 * r\<^sup>2)) = Fin (v\<^sup>2)"
    unfolding f_mul.simps f_div.simps using ne eq by simp
  then have "vmin_elastic u (Fin (2 * r\<^sup>2 * v\<^sup>2 / m)) mw material
               = Inr (np_sqrt (Fin (v\<^sup>2)))"
    by (simp only: vm)
  then have "vmin_elastic u (Fin (2 * r\<^sup>2 * v\<^sup>2 / m)) mw material = Inr (Fin v)"
    using assms(3) by simp
  then show ?thesis by (simp only: r_def m_def)
qed

lemma vmin_elastic_at_zero:
  assumes "0 < amu u" "0 < mw" "ATOMIC_WEIGHT material = Some w"
  shows "vmin_elastic u (Fin 0) mw material = Inr (Fin 0)"
proof -
  define m where "m = w * amu u"
  define r where "r = mw * m / (mw + m)"
  have "0 < r" using kinematics_table(4)[OF assms] by (simp add: r_def m_def)
  then have ne: "2 * r\<^sup>2 \<noteq> 0" by simp
  have "f_div (f_mul (Fin m) (Fin 0)) (Fin (2 * r\<^sup>2)) = Fin 0"
    unfolding f_mul.simps f_div.simps using ne by simp
  then have "vmin_elastic u (Fin 0) mw material = Inr (np_sqrt (Fin 0))"
    by (simp only: vmin_elastic_unfold[OF assms, folded m_def, folded r_def])
  then show ?thesis by simp
qed

text \<open>
  Claim C5. For a positive WIMP mass, a material of the table and a speed \<open>v \<ge> 0\<close>, the
  minimum velocity for the recoil energy \<open>e_max mw v (mn material)\<close> is \<open>v\<close> again, and
  the minimum velocity for the recoil energy 0 is 0. On real numbers the two equations are
  exact, so they hold within every tolerance.
\<close>

theorem vmin_elastic_inverts_e_max:
  assumes "0 < amu u" "0 < mw" "0 \<le> v" "ATOMIC_WEIGHT material = Some w"
  shows "ebind (mn u material) (\<lambda>m. ebind (e_max u mw v (Some m)) (\<lambda>e.
           vmin_elastic u (Fin e) mw material)) = Inr (Fin v)
       \<and> vmin_elastic u (Fin 0) mw material = Inr (Fin 0)"
  by (simp add: mn_table[OF assms(4)] e_max_table[OF assms(1,2,4)]
        vmin_elastic_at_e_max[OF assms] vmin_elastic_at_zero[OF assms(1,2,4)])

theorem vmin_elastic_inverts_e_max_witness:
  "0 < amu units_SI \<and> 0 < mw_example \<and> (0::real) \<le> 300000
   \<and> ATOMIC_WEIGHT ''Xe'' = Some 131.293
   \<and> ebind (mn units_SI ''Xe'') (\<lambda>m. ebind (e_max units_SI mw_example 300000 (Some m)) (\<lambda>e.
        vmin_elastic units_SI (Fin e) mw_example ''Xe'')) = Inr (Fin 300000)
   \<and> vmin_elastic units_SI (Fin 0) mw_example ''Xe'' = Inr (Fin 0)"
proof -
  have a: "0 < amu units_SI" by (simp add: units_SI_def)
  have v: "(0::real) \<le> 300000" by simp
  note r = vmin_elastic_inverts_e_max[OF a mw_example_pos v Xe_weight]
  show ?thesis
    by (intro conjI a mw_example_pos v Xe_weight r[THEN conjunct1] r[THEN conjunct2])
qed

lemma vmin_example:
  assumes "0 \<le> v"
  shows "vmin_elastic (nu env_example) (Fin (erec_at v)) mw_example ''Xe'' = Inr (Fin v)"
proof -
  have a: "0 < amu units_SI" using units_SI_ok by (simp add: units_ok_def)
  have "vmin_elastic units_SI (Fin (erec_at v)) mw_example ''Xe'' = Inr (Fin v)"
    unfolding erec_at_def
    by (rule vmin_elastic_at_e_max[OF a mw_example_pos assms Xe_weight])
  then show ?thesis by (simp add: env_example_def)
qed

subsection \<open>Form factor\<close>

text \<open>
  A lower bound on \<open>pi\<close>, enough for the squared nuclear radius \<open>rn_sq\<close> of
  \<^verbatim>\<open>helm_form_factor_squared\<close> to be positive for every mass number.
\<close>

lemma cos_13_pos: "0 < cos (1.3::real)"
proof -
  have s1: "sin (0.65::real) \<le> 0.65" by (rule sin_x_le_x) simp
  have s2: "- (0.65::real) \<le> sin 0.65" by (rule sin_x_ge_neg_x) simp
  have "\<bar>sin (0.65::real)\<bar> \<le> 0.65" using s1 s2 by (simp add: abs_le_iff)
  then have "(sin (0.65::real))\<^sup>2 \<le> 0.65\<^sup>2"
    by (metis abs_le_square_iff abs_of_nonneg le_numeral_extra(3) order_trans abs_ge_zero)
  moreover have "cos (2 * 0.65) = 1 - 2 * (sin (0.65::real))\<^sup>2" by (rule cos_double_sin)
  ultimately have "0 < cos (2 * (0.65::real))" by (simp add: power2_eq_square)
  then show ?thesis by simp
qed

lemma pi_gt_26: "2.6 < pi"
proof (rule ccontr)
  assume "\<not> 2.6 < pi"
  then have "pi / 2 \<le> 1.3" by simp
  moreover have "(1.3::real) \<le> pi" using pi_ge_two by simp
  ultimately have "cos 1.3 \<le> cos (pi / 2)"
    by (intro cos_monotone_0_pi_le) simp_all
  then show False using cos_13_pos by simp
qed

lemma rn_sq_pos: "0 < (c::real)\<^sup>2 + (7.0 / 3.0) * pi\<^sup>2 * 0.52\<^sup>2 - 5 * 0.9\<^sup>2"
proof -
  have "2.6 * 2.6 < pi * pi" using pi_gt_26 by (intro mult_strict_mono) simp_all
  then have "6.76 < pi\<^sup>2" by (simp add: power2_eq_square)
  then have "(5::real) * 0.9\<^sup>2 < (7.0 / 3.0) * pi\<^sup>2 * 0.52\<^sup>2"
    by (simp add: power2_eq_square)
  moreover have "0 \<le> c\<^sup>2" by simp
  ultimately show ?thesis by linarith
qed

lemma np_sqrt_rn:
  "np_sqrt (Fin (c\<^sup>2 + (7.0 / 3.0) * pi\<^sup>2 * 0.52\<^sup>2 - 5 * 0.9\<^sup>2))
     = Fin (sqrt (c\<^sup>2 + (7.0 / 3.0) * pi\<^sup>2 * 0.52\<^sup>2 - 5 * 0.9\<^sup>2))"
  using rn_sq_pos[of c] by (simp only: np_sqrt.simps) simp

lemma helm_returns:
  assumes "0 < anucl" "c0 u \<noteq> 0" "GeV u \<noteq> 0"
  shows "\<exists>h. helm_form_factor_squared u erec anucl = Inr h"
  using assms by (simp add: helm_form_factor_squared_def py_div_def Let_def)

text \<open>
  A mass number \<open>A \<le> 0\<close> is refused with \<^verbatim>\<open>ValueError("Invalid value of A!")\<close>, whatever
  the recoil energy.
\<close>

lemma helm_invalid:
  assumes "anucl \<le> 0"
  shows "helm_form_factor_squared u erec anucl = Inl (ValueError Invalid_A)"
  using assms by (simp add: helm_form_factor_squared_def Let_def)

lemma j1_zero: "spherical_bessel_j1 (Fin 0) = NaN"
  by (simp add: spherical_bessel_j1_def f_sub_def signed_inf_def)

lemma j1_fin:
  assumes "x \<noteq> 0"
  shows "spherical_bessel_j1 (Fin x) = Fin (sin x / x\<^sup>2 - cos x / x)"
  using assms by (simp add: spherical_bessel_j1_def f_sub_def)

lemma helm_zero:
  assumes "units_ok u" "0 < anucl"
  shows "helm_form_factor_squared u (Fin 0) anucl = Inr NaN"
proof -
  have u: "keV u \<noteq> 0" "c0 u \<noteq> 0" "GeV u \<noteq> 0"
    using assms(1) by (auto simp: units_ok_def)
  have en: "f_div (Fin 0) (Fin (keV u)) = Fin 0" using u by simp
  have p1: "py_div (GeV u) ((c0 u)\<^sup>2) = Inr (GeV u / (c0 u)\<^sup>2)"
    using u by (simp add: py_div_def)
  have p2: "py_div (amu u) (GeV u / (c0 u)\<^sup>2) = Inr (amu u / (GeV u / (c0 u)\<^sup>2))"
    using u by (simp add: py_div_def)
  have q: "np_sqrt (f_mul (f_mul (Fin 0) (Fin 2)) (Fin m)) = Fin 0" for m by simp
  have x: "f_div (f_mul (Fin 0) (Fin r)) (Fin 197327) = Fin 0" for r by simp
  have nan: "f_mul (f_div (f_mul (f_mul (Fin 9) NaN) NaN) y) z = NaN" for y z by simp
  show ?thesis
    unfolding helm_form_factor_squared_def Let_def
    using assms(2)
    by (simp only: en p1 p2 ebind_Inr q np_sqrt_rn x j1_zero nan) simp
qed

text \<open>
  For a positive recoil energy and a positive mass number the form factor is a finite,
  nonnegative number.
\<close>

lemma helm_positive:
  assumes "units_ok u" "0 < anucl" "0 < e"
  shows "\<exists>h. helm_form_factor_squared u (Fin e) anucl = Inr (Fin h) \<and> 0 \<le> h"
proof -
  have u: "0 < keV u" "0 < c0 u" "0 < GeV u" "0 < amu u"
    using assms(1) by (auto simp: units_ok_def)
  define M where "M = anucl * (amu u / (GeV u / (c0 u)\<^sup>2)) * 1000000"
  define c where "c = 1.23 * anucl powr (1 / 3) - 0.60"
  define rn where "rn = sqrt (c\<^sup>2 + (7.0 / 3.0) * pi\<^sup>2 * 0.52\<^sup>2 - 5 * 0.9\<^sup>2)"
  define q where "q = sqrt (e / keV u * 2 * M)"
  define x where "x = q * rn / 197327"
  define j where "j = sin x / x\<^sup>2 - cos x / x"
  define qs where "qs = q * 0.9 / 197327"
  have Mpos: "0 < M" using u assms(2) by (simp add: M_def)
  have rnpos: "0 < rn" unfolding rn_def using rn_sq_pos[of c] by simp
  have qpos: "0 < q" unfolding q_def using u assms(3) Mpos by simp
  have xpos: "0 < x" unfolding x_def using qpos rnpos by simp
  have en: "f_div (Fin e) (Fin (keV u)) = Fin (e / keV u)" using u by simp
  have p1: "py_div (GeV u) ((c0 u)\<^sup>2) = Inr (GeV u / (c0 u)\<^sup>2)"
    using u by (simp add: py_div_def)
  have p2: "py_div (amu u) (GeV u / (c0 u)\<^sup>2) = Inr (amu u / (GeV u / (c0 u)\<^sup>2))"
    using u by (simp add: py_div_def)
  have rn: "np_sqrt (Fin (c\<^sup>2 + (7.0 / 3.0) * pi\<^sup>2 * 0.52\<^sup>2 - 5 * 0.9\<^sup>2)) = Fin rn"
    unfolding rn_def by (rule np_sqrt_rn)
  have "0 \<le> e / keV u * 2 * M" using u assms(3) Mpos by simp
  then have qv: "np_sqrt (f_mul (f_mul (Fin (e / keV u)) (Fin 2)) (Fin M)) = Fin q"
    unfolding q_def f_mul.simps np_sqrt.simps by (simp only: not_less[symmetric] if_False)
  have xv: "f_div (f_mul (Fin q) (Fin rn)) (Fin 197327) = Fin x"
    by (simp add: x_def)
  have jv: "spherical_bessel_j1 (Fin x) = Fin j"
    unfolding j_def using xpos by (intro j1_fin) simp
  have rv: "f_div (f_mul (f_mul (Fin 9) (Fin j)) (Fin j)) (f_mul (Fin x) (Fin x))
              = Fin (9 * j * j / (x * x))"
    using xpos by simp
  have qsv: "f_div (f_mul (Fin q) (Fin 0.9)) (Fin 197327) = Fin qs"
    by (simp add: qs_def)
  have ev: "np_exp (f_mul (f_neg (Fin qs)) (Fin qs)) = Fin (exp (- qs * qs))"
    by simp
  have "helm_form_factor_squared u (Fin e) anucl
          = Inr (Fin (9 * j * j / (x * x) * exp (- qs * qs)))"
    unfolding helm_form_factor_squared_def Let_def
    using assms(2)
    by (simp only: en p1 p2 ebind_Inr M_def[symmetric] c_def[symmetric] rn qv xv jv rv qsv ev)
       simp
  moreover have "0 \<le> 9 * j * j / (x * x) * exp (- qs * qs)"
  proof -
    have "9 * j * j / (x * x) = 9 * (j / x)\<^sup>2" by (simp add: power2_eq_square)
    then have "0 \<le> 9 * j * j / (x * x)" by simp
    then show ?thesis by (intro mult_nonneg_nonneg) simp_all
  qed
  ultimately show ?thesis by blast
qed

text \<open>
  Claim C3. The claim asks for a finite nonnegative form factor at every recoil energy
  \<open>erec \<ge> 0\<close> and speaks of a guard in \<^verbatim>\<open>spherical_bessel_j1\<close> at \<open>x = 0\<close>. The source
  has no such guard: at \<open>erec = 0\<close> the momentum \<open>q\<close> is 0, \<^verbatim>\<open>np.sin(x) / x**2\<close> is
  0/0 and \<^verbatim>\<open>np.cos(x) / x\<close> is 1/0, so the function returns NaN. Evaluated for xenon
  (\<open>A = 131.293\<close>) in SI units; \<open>helm_zero\<close> above is the same fact for every unit system and
  every \<open>A > 0\<close>, \<open>helm_positive\<close> and \<open>helm_invalid\<close> are the parts of the claim that hold.
\<close>

theorem helm_form_factor_squared_at_zero_energy:
  "helm_form_factor_squared units_SI (Fin 0) 131.293 = Inr NaN"
  by (rule helm_zero[OF units_SI_ok]) simp

subsection \<open>Cross section\<close>

lemma sigma_SI_value:
  assumes "units_ok u" "0 < mw" "v \<noteq> 0" "ATOMIC_WEIGHT material = Some A"
  shows "\<exists>muN mun m E h.
           mu_nucleus u mw material = Inr muN \<and> reduced_mass (amu u) mw = Inr mun
         \<and> mn u material = Inr m \<and> e_max u mw v (Some m) = Inr E
         \<and> helm_form_factor_squared u erec A = Inr h
         \<and> sigma_SI u erec v mw sigma_nucleon material
             = Inr (f_mul (Fin (sigma_nucleon * (muN / mun)\<^sup>2 * A\<^sup>2 / E)) h)"
proof -
  have u: "0 < amu u" "c0 u \<noteq> 0" "GeV u \<noteq> 0"
    using assms(1) by (auto simp: units_ok_def)
  define m where "m = A * amu u"
  define muN where "muN = mw * m / (mw + m)"
  define mun where "mun = amu u * mw / (amu u + mw)"
  define E where "E = 2 * muN\<^sup>2 * v\<^sup>2 / m"
  note k = kinematics_table[OF u(1) assms(2,4), folded m_def, folded muN_def]
  have Apos: "0 < A" using assms(4) by (rule ATOMIC_WEIGHT_pos)
  have mpos: "0 < m" and muNpos: "0 < muN" using k by simp_all
  have mun: "reduced_mass (amu u) mw = Inr mun" and munpos: "0 < mun"
    using reduced_mass_pos[OF u(1) assms(2)] by (simp_all add: mun_def)
  have red: "reduced_mass mw m = Inr muN"
    using reduced_mass_pos(1)[OF assms(2) mpos] by (simp add: muN_def)
  have Ene: "E \<noteq> 0" using mpos muNpos assms(3) by (simp add: E_def)
  have em: "e_max u mw v (Some m) = Inr E"
    using mpos by (simp add: e_max_def red py_div_def E_def)
  obtain h where h: "helm_form_factor_squared u erec A = Inr h"
    using helm_returns[OF Apos u(2,3)] by blast
  have "sigma_SI u erec v mw sigma_nucleon material
          = Inr (f_mul (Fin (sigma_nucleon * (muN / mun)\<^sup>2 * A\<^sup>2 / E)) h)"
    using munpos Ene
    by (simp add: sigma_SI_def k mun em h assms(4) py_div_def Let_def)
  with k mun em h show ?thesis by blast
qed

text \<open>
  Claim C1. For a recoil energy \<open>erec \<ge> 0\<close>, a speed \<open>v > 0\<close>, a positive WIMP mass and a
  material of the table with atomic weight \<open>A\<close>, the cross section for the interaction
  \<^verbatim>\<open>'SI'\<close> with an infinite mediator mass and no momentum-dependence parameters is
  \<open>sigma_nucleon * (mu_nucleus / mu_nucleon)\<^sup>2 * A\<^sup>2 / e_max * helm\<close>, where \<open>mu_nucleus\<close>
  is what \<^verbatim>\<open>mu_nucleus(mw, material)\<close> returns, \<open>mu_nucleon\<close> what
  \<^verbatim>\<open>reduced_mass(nu.amu, mw)\<close> returns, \<open>e_max\<close> what
  \<^verbatim>\<open>e_max(mw, v, mn(material))\<close> returns and \<open>helm\<close> what
  \<^verbatim>\<open>helm_form_factor_squared(erec, A)\<close> returns; all five calls return.
\<close>

theorem sigma_erec_SI_contact:
  assumes "units_ok u" "0 \<le> e" "0 < v" "0 < mw" "ATOMIC_WEIGHT material = Some A"
  shows "\<exists>muN mun m E h.
           mu_nucleus u mw material = Inr muN \<and> reduced_mass (amu u) mw = Inr mun
         \<and> mn u material = Inr m \<and> e_max u mw v (Some m) = Inr E
         \<and> helm_form_factor_squared u (Fin e) A = Inr h
         \<and> sigma_erec u sd (Fin e) v mw sigma_nucleon ''SI'' PInf material None None
             = Inr (f_mul (Fin (sigma_nucleon * (muN / mun)\<^sup>2 * A\<^sup>2 / E)) h)"
proof -
  have v: "v \<noteq> 0" using assms(3) by simp
  obtain muN mun m E h where
    s: "mu_nucleus u mw material = Inr muN" "reduced_mass (amu u) mw = Inr mun"
       "mn u material = Inr m" "e_max u mw v (Some m) = Inr E"
       "helm_form_factor_squared u (Fin e) A = Inr h"
       "sigma_SI u (Fin e) v mw sigma_nucleon material
          = Inr (f_mul (Fin (sigma_nucleon * (muN / mun)\<^sup>2 * A\<^sup>2 / E)) h)"
    using sigma_SI_value[OF assms(1,4) v assms(5)] by blast
  have "sigma_erec u sd (Fin e) v mw sigma_nucleon ''SI'' PInf material None None
          = Inr (f_mul (Fin (sigma_nucleon * (muN / mun)\<^sup>2 * A\<^sup>2 / E)) h)"
    by (simp add: sigma_erec_def s(6) mediator_factor_def f_mul_one)
  with s show ?thesis by blast
qed

theorem sigma_erec_SI_contact_witness:
  "units_ok units_SI \<and> (0::real) \<le> 1 / 10 ^ 15 \<and> (0::real) < 300000 \<and> 0 < mw_example
   \<and> ATOMIC_WEIGHT ''Xe'' = Some 131.293
   \<and> (\<exists>muN mun m E h.
           mu_nucleus units_SI mw_example ''Xe'' = Inr muN
         \<and> reduced_mass (amu units_SI) mw_example = Inr mun
         \<and> mn units_SI ''Xe'' = Inr m \<and> e_max units_SI mw_example 300000 (Some m) = Inr E
         \<and> helm_form_factor_squared units_SI (Fin (1 / 10 ^ 15)) 131.293 = Inr h
         \<and> sigma_erec units_SI sd_example (Fin (1 / 10 ^ 15)) 300000 mw_example (1 / 10 ^ 49)
              ''SI'' PInf ''Xe'' None None
             = Inr (f_mul (Fin (1 / 10 ^ 49 * (muN / mun)\<^sup>2 * 131.293\<^sup>2 / E)) h))"
proof -
  have e: "(0::real) \<le> 1 / 10 ^ 15" by simp
  have v: "(0::real) < 300000" by simp
  note r = sigma_erec_SI_contact[OF units_SI_ok e v mw_example_pos Xe_weight, of sd_example "1 / 10 ^ 49"]
  show ?thesis by (intro conjI units_SI_ok e v mw_example_pos Xe_weight r)
qed

lemma extra_momentum_factor_value:
  assumes "units_ok u" "ATOMIC_WEIGHT material = Some A" "0 < e" "0 < q_ref"
  shows "extra_momentum_factor u (Fin e) PInf material n q_ref
           = Inr (Fin ((sqrt (2 * (A * amu u) * e) / c0 u
                        / (q_ref * MeV u / c0 u / GeV u)) powi (2 * n)))"
    and "extra_momentum_factor u (Fin e) (Fin m_med) material n q_ref
           = Inr (Fin ((sqrt (2 * (A * amu u) * e) / c0 u
                        / (q_ref * MeV u / c0 u / GeV u)) powi (2 * n)
                       * (((q_ref * MeV u / c0 u / GeV u)\<^sup>2 + m_med\<^sup>2)
                          / ((sqrt (2 * (A * amu u) * e) / c0 u)\<^sup>2 + m_med\<^sup>2))))"
proof -
  have u: "0 < c0 u" "0 < MeV u" "0 < GeV u" "0 < amu u"
    using assms(1) by (auto simp: units_ok_def)
  have Apos: "0 < A" using assms(2) by (rule ATOMIC_WEIGHT_pos)
  define q where "q = sqrt (2 * (A * amu u) * e) / c0 u"
  define qr where "qr = q_ref * MeV u / c0 u / GeV u"
  have m: "mn u material = Inr (A * amu u)" using assms(2) by (rule mn_table)
  have rad: "0 < 2 * (A * amu u) * e" using Apos u assms(3) by simp
  have qpos: "0 < q" unfolding q_def using rad u by simp
  have qrpos: "0 < qr" unfolding qr_def using assms(4) u by simp
  have qv: "f_div (np_pow_half (f_mul (Fin (2 * (A * amu u))) (Fin e))) (Fin (c0 u)) = Fin q"
    using rad u by (simp add: q_def)
  have p1: "py_div (q_ref * MeV u) (c0 u) = Inr (q_ref * MeV u / c0 u)"
    using u by (simp add: py_div_def)
  have p2: "py_div (q_ref * MeV u / c0 u) (GeV u) = Inr qr"
    using u by (simp add: py_div_def qr_def)
  have ratio: "f_powi (f_div (Fin q) (Fin qr)) (2 * n) = Fin ((q / qr) powi (2 * n))"
    using qpos qrpos by simp
  have den: "q\<^sup>2 + m_med\<^sup>2 \<noteq> 0"
    using qpos by (metis add_nonneg_eq_0_iff less_irrefl power2_eq_iff_nonneg
        zero_eq_power2 zero_le_power2)
  have pw: "f_powi (Fin x) 2 = Fin (x\<^sup>2)" for x by simp
  have frac: "f_div (f_add (Fin (qr\<^sup>2)) (f_powi (Fin m_med) 2))
                    (f_add (f_powi (Fin q) 2) (f_powi (Fin m_med) 2))
                = Fin ((qr\<^sup>2 + m_med\<^sup>2) / (q\<^sup>2 + m_med\<^sup>2))"
    unfolding pw f_add.simps f_div.simps using den by (simp only: if_False)
  show "extra_momentum_factor u (Fin e) PInf material n q_ref
           = Inr (Fin ((sqrt (2 * (A * amu u) * e) / c0 u
                        / (q_ref * MeV u / c0 u / GeV u)) powi (2 * n)))"
    unfolding extra_momentum_factor_def Let_def q_def[symmetric] qr_def[symmetric]
    by (simp only: m ebind_Inr qv p1 p2 ratio) simp
  show "extra_momentum_factor u (Fin e) (Fin m_med) material n q_ref
           = Inr (Fin ((sqrt (2 * (A * amu u) * e) / c0 u
                        / (q_ref * MeV u / c0 u / GeV u)) powi (2 * n)
                       * (((q_ref * MeV u / c0 u / GeV u)\<^sup>2 + m_med\<^sup>2)
                          / ((sqrt (2 * (A * amu u) * e) / c0 u)\<^sup>2 + m_med\<^sup>2))))"
    unfolding extra_momentum_factor_def Let_def q_def[symmetric] qr_def[symmetric]
    by (simp only: m ebind_Inr qv p1 p2 ratio frac) simp
qed

text \<open>
  Claim C4, as amended. For a recoil energy \<open>erec > 0\<close>, a material of the table, a power \<open>n\<close>
  and a reference momentum \<open>q_ref > 0\<close>, the extra momentum-dependence factor is
  \<open>(q / q_r)\<^bsup>2n\<^esup>\<close> when the mediator mass is infinite and
  \<open>(q / q_r)\<^bsup>2n\<^esup> * (q_r\<^sup>2 + m_med\<^sup>2) / (q\<^sup>2 + m_med\<^sup>2)\<close> when it is finite, where
  \<open>q = sqrt (2 * mn material * erec) / c0\<close> is the momentum transfer divided by the speed of
  light and \<open>q_r = q_ref * MeV / c0 / GeV\<close> is the supplied reference momentum after the
  conversion that the function applies to it.
\<close>

theorem extra_momentum_factor_formula:
  assumes "units_ok u" "ATOMIC_WEIGHT material = Some A" "0 < e" "0 < q_ref"
  shows "extra_momentum_factor u (Fin e) PInf material n q_ref
           = Inr (Fin ((sqrt (2 * (A * amu u) * e) / c0 u
                        / (q_ref * MeV u / c0 u / GeV u)) powi (2 * n)))
       \<and> extra_momentum_factor u (Fin e) (Fin m_med) material n q_ref
           = Inr (Fin ((sqrt (2 * (A * amu u) * e) / c0 u
                        / (q_ref * MeV u / c0 u / GeV u)) powi (2 * n)
                       * (((q_ref * MeV u / c0 u / GeV u)\<^sup>2 + m_med\<^sup>2)
                          / ((sqrt (2 * (A * amu u) * e) / c0 u)\<^sup>2 + m_med\<^sup>2))))"
  using extra_momentum_factor_value[OF assms] by simp

theorem extra_momentum_factor_formula_witness:
  "units_ok units_SI \<and> ATOMIC_WEIGHT ''Xe'' = Some 131.293 \<and> 0 < 10 * keV units_SI
   \<and> (0::real) < 10
   \<and> extra_momentum_factor units_SI (Fin (10 * keV units_SI)) PInf ''Xe'' 1 10
           = Inr (Fin ((sqrt (2 * (131.293 * amu units_SI) * (10 * keV units_SI)) / c0 units_SI
                        / (10 * MeV units_SI / c0 units_SI / GeV units_SI)) powi (2 * 1)))
   \<and> extra_momentum_factor units_SI (Fin (10 * keV units_SI)) (Fin mw_example) ''Xe'' 1 10
           = Inr (Fin ((sqrt (2 * (131.293 * amu units_SI) * (10 * keV units_SI)) / c0 units_SI
                        / (10 * MeV units_SI / c0 units_SI / GeV units_SI)) powi (2 * 1)
                       * (((10 * MeV units_SI / c0 units_SI / GeV units_SI)\<^sup>2 + mw_example\<^sup>2)
                          / ((sqrt (2 * (131.293 * amu units_SI) * (10 * keV units_SI))
                               / c0 units_SI)\<^sup>2 + mw_example\<^sup>2))))"
proof -
  have q: "(0::real) < 10" by simp
  note r = extra_momentum_factor_formula[OF units_SI_ok Xe_weight ten_keV_pos q, of 1 mw_example]
  show ?thesis
    by (intro conjI units_SI_ok Xe_weight ten_keV_pos q r[THEN conjunct1] r[THEN conjunct2])
qed

text \<open>
  Claim C4 as first stated, with \<open>q = sqrt (2 * mn material * erec)\<close> and the reference
  momentum as supplied, does not hold: for xenon at 10 keV in SI units, \<open>n = 1\<close>, \<open>q_ref = 10\<close>
  and an infinite mediator mass, the function returns \<open>10\<^sup>6 * (q / q_ref)\<^sup>2\<close>, not
  \<open>(q / q_ref)\<^sup>2\<close>; nor is its value \<open>(q / q_r)\<^sup>2\<close> with the converted reference momentum
  \<open>q_r\<close> and the unconverted \<open>q\<close>.
\<close>

theorem extra_momentum_factor_counterexample:
  "extra_momentum_factor units_SI (Fin (10 * keV units_SI)) PInf ''Xe'' 1 10
     \<noteq> Inr (Fin ((sqrt (2 * (131.293 * amu units_SI) * (10 * keV units_SI)) / 10) powi (2 * 1)))
   \<and> extra_momentum_factor units_SI (Fin (10 * keV units_SI)) PInf ''Xe'' 1 10
     \<noteq> Inr (Fin ((sqrt (2 * (131.293 * amu units_SI) * (10 * keV units_SI))
                    / (10 * MeV units_SI / c0 units_SI / GeV units_SI)) powi (2 * 1)))"
proof -
  define X where "X = 2 * (131.293 * amu units_SI) * (10 * keV units_SI)"
  have Xpos: "0 < X" by (simp add: X_def units_SI_def)
  have q: "(10::real) > 0" by simp
  have code: "extra_momentum_factor units_SI (Fin (10 * keV units_SI)) PInf ''Xe'' 1 10
          = Inr (Fin ((sqrt X / c0 units_SI
                        / (10 * MeV units_SI / c0 units_SI / GeV units_SI)) powi (2 * 1)))"
    unfolding X_def
    by (rule extra_momentum_factor_value(1)[OF units_SI_ok Xe_weight ten_keV_pos q])
  have r: "sqrt X / c0 units_SI / (10 * MeV units_SI / c0 units_SI / GeV units_SI)
             = 100 * sqrt X"
    by (simp add: units_SI_def)
  have v: "(100 * sqrt X) powi (2 * 1) = 10000 * X"
    using Xpos by (simp add: power_mult_distrib)
  have c1: "(sqrt X / 10) powi (2 * 1) = X / 100"
    using Xpos by (simp add: power_divide)
  have r2: "sqrt X / (10 * MeV units_SI / c0 units_SI / GeV units_SI)
              = 100 * 299792458 * sqrt X"
    by (simp add: units_SI_def)
  have c2: "(100 * 299792458 * sqrt X) powi (2 * 1) = (100 * 299792458)\<^sup>2 * X"
    using Xpos by (simp add: power_mult_distrib)
  have "10000 * X \<noteq> X / 100" using Xpos by simp
  moreover have "10000 * X \<noteq> (100 * 299792458)\<^sup>2 * X" using Xpos by simp
  ultimately show ?thesis
    unfolding code X_def[symmetric] r r2 v c1 c2 by simp
qed

lemma sigma_partial:
  assumes "(n = None) \<noteq> (q_ref = None)"
  shows "sigma_erec u sd erec v mw sigma_nucleon interaction m_med material n q_ref
           = sigma_erec u sd erec v mw sigma_nucleon interaction m_med material None None"
  using assms by (cases n; cases q_ref) (simp_all add: sigma_erec_def)

lemma sigma_unsupported:
  assumes "interaction \<noteq> ''SI''" "\<not> startswith interaction ''SD''"
  shows "sigma_erec u sd erec v mw sigma_nucleon interaction m_med material n q_ref
           = Inl (ValueError (Unsupported_Interaction interaction))"
  using assms by (simp add: sigma_erec_def)

lemma sigma_SD_bare:
  "sigma_erec u sd erec v mw sigma_nucleon ''SD'' m_med ''Xe'' n q_ref
     = Inl (ValueError (Unpack 1))"
  by (simp add: sigma_erec_def startswith_def sigma_SD_def)

text \<open>
  Claim C7, as amended. For every interaction string that is not \<^verbatim>\<open>'SI'\<close> and does not
  start with \<^verbatim>\<open>'SD'\<close>, the cross section fails with the unsupported-interaction error that
  names the string, whatever the material and the other parameters.
\<close>

theorem sigma_erec_unsupported_interaction:
  assumes "interaction \<noteq> ''SI''" "\<not> startswith interaction ''SD''"
  shows "sigma_erec u sd erec v mw sigma_nucleon interaction m_med material n q_ref
           = Inl (ValueError (Unsupported_Interaction interaction))"
  using assms by (rule sigma_unsupported)

theorem sigma_erec_unsupported_interaction_witness:
  "''XYZ'' \<noteq> ''SI'' \<and> \<not> startswith ''XYZ'' ''SD''
   \<and> sigma_erec units_SI sd_example (Fin (erec_at 100000)) 300000 mw_example (1 / 10 ^ 49)
       ''XYZ'' PInf ''Xe'' None None = Inl (ValueError (Unsupported_Interaction ''XYZ''))"
proof -
  have a: "''XYZ'' \<noteq> ''SI''" by simp
  have b: "\<not> startswith ''XYZ'' ''SD''" by (simp add: startswith_def)
  show ?thesis by (intro conjI a b sigma_erec_unsupported_interaction[OF a b])
qed

text \<open>
  Claim C7 as first stated also covers the malformed string \<^verbatim>\<open>'SD'\<close>. That string starts
  with \<^verbatim>\<open>'SD'\<close>, so the source takes the spin-dependent branch, and for xenon the unpacking
  of \<^verbatim>\<open>interaction.split('_')\<close> into three names fails on a list of one element: a
  \<^verbatim>\<open>ValueError\<close> of tuple unpacking, not the unsupported-interaction error.
\<close>

theorem sigma_erec_bare_SD_counterexample:
  "sigma_erec units_SI sd_example (Fin (erec_at 100000)) 300000 mw_example (1 / 10 ^ 49)
     ''SD'' PInf ''Xe'' None None = Inl (ValueError (Unpack 1))
   \<and> sigma_erec units_SI sd_example (Fin (erec_at 100000)) 300000 mw_example (1 / 10 ^ 49)
     ''SD'' PInf ''Xe'' None None \<noteq> Inl (ValueError (Unsupported_Interaction ''SD''))"
  by (simp add: sigma_SD_bare)

subsection \<open>Structure functions\<close>

lemma interp1d_outside:
  assumes "x < Min (set xs) \<or> Max (set xs) < x"
  shows "interp1d xs ys fill_value (Fin x) = Fin fill_value"
  using assms by (auto simp: interp1d_def)

lemma lookup_outside:
  assumes "s_values sd (A, coupling, s_assumption) = Some vals"
      and "keV u \<noteq> 0"
      and "e / keV u < Min (set (s_energies sd)) \<or> Max (set (s_energies sd)) < e / keV u"
  shows "structure_functions sd (A, coupling, s_assumption)
           = Inr (interp1d (s_energies sd) vals 0)"
    and "interp1d (s_energies sd) vals 0 (f_div (Fin e) (Fin (keV u))) = Fin 0"
proof -
  show "structure_functions sd (A, coupling, s_assumption)
           = Inr (interp1d (s_energies sd) vals 0)"
    using assms(1) by (simp add: structure_functions_def)
  have "f_div (Fin e) (Fin (keV u)) = Fin (e / keV u)" using assms(2) by simp
  then show "interp1d (s_energies sd) vals 0 (f_div (Fin e) (Fin (keV u))) = Fin 0"
    using interp1d_outside[OF assms(3)] by simp
qed

lemma sd_loop_step:
  assumes "units_ok u" "0 < mw" "v \<noteq> 0" "0 < mn_isotope" "0 \<le> J"
      and "s_values sd (A, coupling, s_assumption) = Some vals"
      and "e / keV u < Min (set (s_energies sd)) \<or> Max (set (s_energies sd)) < e / keV u"
  shows "sd_loop u sd (Fin e) v mw sigma_nucleon coupling s_assumption
           ((A, mn_isotope, J, abundance) # rest) (Fin 0)
         = sd_loop u sd (Fin e) v mw sigma_nucleon coupling s_assumption rest (Fin 0)"
proof -
  have u: "0 < amu u" "0 < mp u" "keV u \<noteq> 0"
    using assms(1) by (auto simp: units_ok_def)
  define m where "m = mn_isotope * amu u"
  have mpos: "0 < m" using assms(4) u by (simp add: m_def)
  define r1 where "r1 = mw * m / (mw + m)"
  define r2 where "r2 = mw * mp u / (mw + mp u)"
  have r1: "reduced_mass mw m = Inr r1"
    using reduced_mass_pos(1)[OF assms(2) mpos] by (simp add: r1_def)
  have r2: "reduced_mass mw (mp u) = Inr r2" and r2pos: "0 < r2"
    using reduced_mass_pos[OF assms(2) u(2)] by (simp_all add: r2_def)
  have den: "3 * r2\<^sup>2 * (2 * J + 1) \<noteq> 0" using r2pos assms(5) by simp
  obtain E where E: "e_max u mw v (Some m) = Inr E" "E \<noteq> 0"
    using e_max_value[OF assms(2) mpos assms(3)] by blast
  note l = lookup_outside[OF assms(6) u(3) assms(7)]
  show ?thesis
    using den E(2)
    by (simp add: Let_def m_def[symmetric] l r1 r2 E(1) py_div_def del: f_div.simps)
qed

lemma sigma_SD_outside:
  assumes "units_ok u" "0 < mw" "v \<noteq> 0"
      and "split CHR ''_'' interaction = [p, coupling, s_assumption]"
      and "s_values sd (129, coupling, s_assumption) = Some vals1"
      and "s_values sd (131, coupling, s_assumption) = Some vals2"
      and "e / keV u < Min (set (s_energies sd)) \<or> Max (set (s_energies sd)) < e / keV u"
  shows "sigma_SD u sd (Fin e) v mw sigma_nucleon interaction ''Xe'' = Inr (Fin 0)"
proof -
  have "sd_loop u sd (Fin e) v mw sigma_nucleon coupling s_assumption spin_isotopes (Fin 0)
          = Inr (Fin 0)"
    unfolding spin_isotopes_def
    by (subst sd_loop_step[OF assms(1,2,3) _ _ assms(5) assms(7)], simp, simp,
        subst sd_loop_step[OF assms(1,2,3) _ _ assms(6) assms(7)], simp, simp, simp)
  then show ?thesis by (simp add: sigma_SD_def assms(4))
qed

lemma split_example: "split CHR ''_'' ''SD_n_central'' = [''SD'', ''n'', ''central'']"
  by simp

text \<open>
  Claim C8. For a spin-dependent label \<^verbatim>\<open>SD_<coupling>_<assumption>\<close> whose two keys are in
  the table and a recoil energy that, in keV, lies below the smallest or above the largest
  point of the energy grid, the lookup of each structure function returns 0 and raises
  nothing, and the spin-dependent cross section on xenon, which is the sum of the two
  contributions, is 0: the value of the spin-dependent branch, and with it what
  \<^verbatim>\<open>sigma_erec\<close> returns for an infinite mediator mass.
\<close>

theorem structure_function_outside_grid:
  assumes "units_ok u" "0 < mw" "v \<noteq> 0"
      and "startswith interaction ''SD''"
      and "split CHR ''_'' interaction = [p, coupling, s_assumption]"
      and "s_values sd (129, coupling, s_assumption) = Some vals1"
      and "s_values sd (131, coupling, s_assumption) = Some vals2"
      and "e / keV u < Min (set (s_energies sd)) \<or> Max (set (s_energies sd)) < e / keV u"
      and "s_energies sd \<noteq> []"
  shows "ebind (structure_functions sd (129, coupling, s_assumption))
           (\<lambda>s. Inr (s (f_div (Fin e) (Fin (keV u))))) = Inr (Fin 0)
       \<and> ebind (structure_functions sd (131, coupling, s_assumption))
           (\<lambda>s. Inr (s (f_div (Fin e) (Fin (keV u))))) = Inr (Fin 0)
       \<and> sigma_SD u sd (Fin e) v mw sigma_nucleon interaction ''Xe'' = Inr (Fin 0)
       \<and> sigma_erec u sd (Fin e) v mw sigma_nucleon interaction PInf ''Xe'' None None
           = Inr (Fin 0)"
proof -
  have k: "keV u \<noteq> 0" using assms(1) by (auto simp: units_ok_def)
  note l1 = lookup_outside[OF assms(6) k assms(8)]
  note l2 = lookup_outside[OF assms(7) k assms(8)]
  have a: "ebind (structure_functions sd (129, coupling, s_assumption))
           (\<lambda>s. Inr (s (f_div (Fin e) (Fin (keV u))))) = Inr (Fin 0)"
    by (simp only: l1 ebind_Inr)
  have b: "ebind (structure_functions sd (131, coupling, s_assumption))
           (\<lambda>s. Inr (s (f_div (Fin e) (Fin (keV u))))) = Inr (Fin 0)"
    by (simp only: l2 ebind_Inr)
  have c: "sigma_SD u sd (Fin e) v mw sigma_nucleon interaction ''Xe'' = Inr (Fin 0)"
    by (rule sigma_SD_outside[OF assms(1,2,3,5,6,7,8)])
  have "interaction \<noteq> ''SI''" using assms(4) by (auto simp: startswith_def)
  then have d: "sigma_erec u sd (Fin e) v mw sigma_nucleon interaction PInf ''Xe'' None None
           = Inr (Fin 0)"
    using assms(4) by (simp add: sigma_erec_def c mediator_factor_def)
  show ?thesis by (intro conjI a b c d)
qed

theorem structure_function_outside_grid_witness:
  "units_ok units_SI \<and> 0 < mw_example \<and> (300000::real) \<noteq> 0
   \<and> startswith ''SD_n_central'' ''SD''
   \<and> split CHR ''_'' ''SD_n_central'' = [''SD'', ''n'', ''central'']
   \<and> s_values sd_example (129, ''n'', ''central'') = Some [3 / 100, 1 / 100, 1 / 1000]
   \<and> s_values sd_example (131, ''n'', ''central'') = Some [2 / 100, 1 / 200, 1 / 2000]
   \<and> (200 * keV units_SI / keV units_SI < Min (set (s_energies sd_example))
        \<or> Max (set (s_energies sd_example)) < 200 * keV units_SI / keV units_SI)
   \<and> s_energies sd_example \<noteq> []
   \<and> ebind (structure_functions sd_example (129, ''n'', ''central''))
           (\<lambda>s. Inr (s (f_div (Fin (200 * keV units_SI)) (Fin (keV units_SI))))) = Inr (Fin 0)
   \<and> ebind (structure_functions sd_example (131, ''n'', ''central''))
           (\<lambda>s. Inr (s (f_div (Fin (200 * keV units_SI)) (Fin (keV units_SI))))) = Inr (Fin 0)
   \<and> sigma_SD units_SI sd_example (Fin (200 * keV units_SI)) 300000 mw_example (1 / 10 ^ 49)
        ''SD_n_central'' ''Xe'' = Inr (Fin 0)
   \<and> sigma_erec units_SI sd_example (Fin (200 * keV units_SI)) 300000 mw_example (1 / 10 ^ 49)
        ''SD_n_central'' PInf ''Xe'' None None = Inr (Fin 0)"
proof -
  have v: "(300000::real) \<noteq> 0" by simp
  have st: "startswith ''SD_n_central'' ''SD''" by (simp add: startswith_def)
  have t1: "s_values sd_example (129, ''n'', ''central'') = Some [3 / 100, 1 / 100, 1 / 1000]"
    by (simp add: sd_example_def)
  have t2: "s_values sd_example (131, ''n'', ''central'') = Some [2 / 100, 1 / 200, 1 / 2000]"
    by (simp add: sd_example_def)
  have o: "200 * keV units_SI / keV units_SI < Min (set (s_energies sd_example))
        \<or> Max (set (s_energies sd_example)) < 200 * keV units_SI / keV units_SI"
    by (simp add: sd_example_def units_SI_def)
  have g: "s_energies sd_example \<noteq> []" by (simp add: sd_example_def)
  note r = structure_function_outside_grid[OF units_SI_ok mw_example_pos v st split_example
             t1 t2 o g, of "1 / 10 ^ 49"]
  show ?thesis
    by (intro conjI units_SI_ok mw_example_pos v st split_example t1 t2 o g
          r[THEN conjunct1] r[THEN conjunct2, THEN conjunct1]
          r[THEN conjunct2, THEN conjunct2, THEN conjunct1]
          r[THEN conjunct2, THEN conjunct2, THEN conjunct2])
qed

subsection \<open>Rate\<close>

lemma StandardHaloModel_example: "StandardHaloModel env_example = halo_example"
  by (simp add: env_example_def)

lemma v_max_example: "v_max env_example t (v_esc halo_example) = Fin 776000"
  by (simp add: env_example_def halo_example_def)

lemma above_threshold:
  assumes "776000 \<le> v"
  shows "f_ge (Fin v)
     (v_max env_example None
        (v_esc (case None of None \<Rightarrow> StandardHaloModel env_example | Some h \<Rightarrow> h)))"
  using assms by (simp add: StandardHaloModel_example v_max_example)

lemma below_threshold:
  "\<not> f_ge (Fin 100000)
     (v_max env_example None
        (v_esc (case None of None \<Rightarrow> StandardHaloModel env_example | Some h \<Rightarrow> h)))"
  by (simp add: StandardHaloModel_example v_max_example)

lemma rate_early:
  assumes "vmin_elastic (nu env) erec mw material = Inr v_min"
      and "f_ge v_min
             (v_max env t (v_esc (case halo of None \<Rightarrow> StandardHaloModel env | Some h \<Rightarrow> h)))"
  shows "rate_elastic (env\<lparr>quad := q\<rparr>) erec mw sigma_nucleon interaction m_med t material halo
           n q_ref quad_kwargs = Inr (Fin 0)"
  using assms by (cases halo) (simp_all add: rate_elastic_def Let_def)

lemma rate_warn:
  assumes "vmin_elastic (nu env) erec mw material = Inr v_min"
      and "\<not> f_ge v_min
             (v_max env t (v_esc (case halo of None \<Rightarrow> StandardHaloModel env | Some h \<Rightarrow> h)))"
      and "(n = None) \<noteq> (q_ref = None)"
  shows "rate_elastic (env\<lparr>quad := q\<rparr>) erec mw sigma_nucleon interaction m_med t material halo
           n q_ref quad_kwargs = Inl (ValueError (Momentum_Params n q_ref))"
  using assms
  by (cases halo) (simp_all add: rate_elastic_def Let_def warn_momentum_dependence_def)

lemma rate_early_example:
  assumes "776000 \<le> v"
  shows "rate_elastic env_example (Fin (erec_at v)) mw_example sigma_nucleon interaction m_med
           None ''Xe'' None n q_ref () = Inr (Fin 0)"
proof -
  have "0 \<le> v" using assms by simp
  then have "rate_elastic (env_example\<lparr>quad := quad env_example\<rparr>) (Fin (erec_at v))
        mw_example sigma_nucleon interaction m_med None ''Xe'' None n q_ref () = Inr (Fin 0)"
    by (intro rate_early[OF vmin_example above_threshold[OF assms]])
  then show ?thesis by simp
qed

text \<open>
  Claim C2. Whatever the interaction string, the mediator mass, the momentum-dependence
  parameters and the integrator are: when \<^verbatim>\<open>vmin_elastic\<close> returns a minimum velocity that
  is at least \<^verbatim>\<open>wr.v_max(t, halo_model.v_esc)\<close>, \<^verbatim>\<open>rate_elastic\<close> returns 0. The result is
  the same for every integrator \<open>q\<close> put in the place of \<^verbatim>\<open>quad\<close>, also for one that
  raises at every call: the integrator is not called.
\<close>

theorem rate_elastic_zero_above_v_max:
  assumes "vmin_elastic (nu env) erec mw material = Inr v_min"
      and "f_ge v_min
             (v_max env t (v_esc (case halo of None \<Rightarrow> StandardHaloModel env | Some h \<Rightarrow> h)))"
  shows "rate_elastic (env\<lparr>quad := q\<rparr>) erec mw sigma_nucleon interaction m_med t material halo
           n q_ref quad_kwargs = Inr (Fin 0)"
  using assms by (rule rate_early)

theorem rate_elastic_zero_above_v_max_witness:
  "vmin_elastic (nu env_example) (Fin (erec_at 800000)) mw_example ''Xe'' = Inr (Fin 800000)
   \<and> f_ge (Fin 800000)
        (v_max env_example None
           (v_esc (case None of None \<Rightarrow> StandardHaloModel env_example | Some h \<Rightarrow> h)))
   \<and> rate_elastic (env_example\<lparr>quad := failing_quad\<rparr>) (Fin (erec_at 800000)) mw_example
        (1 / 10 ^ 49) ''SI'' PInf None ''Xe'' None None None () = Inr (Fin 0)"
proof -
  have a: "vmin_elastic (nu env_example) (Fin (erec_at 800000)) mw_example ''Xe''
             = Inr (Fin 800000)"
    by (rule vmin_example) simp
  have b: "f_ge (Fin 800000)
        (v_max env_example None
           (v_esc (case None of None \<Rightarrow> StandardHaloModel env_example | Some h \<Rightarrow> h)))"
    by (rule above_threshold) simp
  show ?thesis by (intro conjI a b rate_elastic_zero_above_v_max[OF a b])
qed

text \<open>
  Claim C6, as amended. When \<^verbatim>\<open>vmin_elastic\<close> returns a minimum velocity that is not at
  least \<^verbatim>\<open>wr.v_max(t, halo_model.v_esc)\<close>, a call of \<^verbatim>\<open>rate_elastic\<close> with exactly one of
  \<open>n\<close> and \<open>q_ref\<close> fails with the \<^verbatim>\<open>ValueError\<close> of \<^verbatim>\<open>_warn_momentum_dependence\<close>, for
  every interaction string and every integrator, so before any integration. The cross
  section \<^verbatim>\<open>sigma_erec\<close> makes no such check: with exactly one of the two it returns what it
  returns with neither.
\<close>

theorem rate_elastic_momentum_params:
  assumes "vmin_elastic (nu env) erec mw material = Inr v_min"
      and "\<not> f_ge v_min
             (v_max env t (v_esc (case halo of None \<Rightarrow> StandardHaloModel env | Some h \<Rightarrow> h)))"
      and "(n = None) \<noteq> (q_ref = None)"
  shows "rate_elastic (env\<lparr>quad := q\<rparr>) erec mw sigma_nucleon interaction m_med t material halo
           n q_ref quad_kwargs = Inl (ValueError (Momentum_Params n q_ref))
       \<and> sigma_erec u sd erec v mw sigma_nucleon interaction m_med material n q_ref
           = sigma_erec u sd erec v mw sigma_nucleon interaction m_med material None None"
  using rate_warn[OF assms] sigma_partial[OF assms(3)] by simp

theorem rate_elastic_momentum_params_witness:
  "vmin_elastic (nu env_example) (Fin (erec_at 100000)) mw_example ''Xe'' = Inr (Fin 100000)
   \<and> \<not> f_ge (Fin 100000)
        (v_max env_example None
           (v_esc (case None of None \<Rightarrow> StandardHaloModel env_example | Some h \<Rightarrow> h)))
   \<and> ((Some 1 :: int option) = None) \<noteq> ((None :: real option) = None)
   \<and> rate_elastic (env_example\<lparr>quad := failing_quad\<rparr>) (Fin (erec_at 100000)) mw_example
        (1 / 10 ^ 49) ''SI'' PInf None ''Xe'' None (Some 1) None ()
        = Inl (ValueError (Momentum_Params (Some 1) None))
   \<and> sigma_erec units_SI sd_example (Fin (erec_at 100000)) 300000 mw_example (1 / 10 ^ 49)
        ''SI'' PInf ''Xe'' (Some 1) None
       = sigma_erec units_SI sd_example (Fin (erec_at 100000)) 300000 mw_example (1 / 10 ^ 49)
           ''SI'' PInf ''Xe'' None None"
proof -
  have a: "vmin_elastic (nu env_example) (Fin (erec_at 100000)) mw_example ''Xe''
             = Inr (Fin 100000)"
    by (rule vmin_example) simp
  have c: "((Some 1 :: int option) = None) \<noteq> ((None :: real option) = None)" by simp
  note r = rate_elastic_momentum_params[OF a below_threshold c]
  show ?thesis
    by (intro conjI a below_threshold c r[THEN conjunct1] r[THEN conjunct2])
qed

text \<open>
  Claim C6 as first stated asks for the error from the cross section too, and from every
  call of the rate. With \<open>n = 1\<close> and no \<open>q_ref\<close>, \<^verbatim>\<open>sigma_erec\<close> returns a value, and
  \<^verbatim>\<open>rate_elastic\<close> returns 0 at a recoil energy whose minimum velocity, 800 km/s, is above
  the 776 km/s of \<^verbatim>\<open>v_max\<close>: the early return comes before the check.
\<close>

theorem momentum_params_counterexample:
  "\<not> isl (sigma_erec units_SI sd_example (Fin (erec_at 100000)) 300000 mw_example (1 / 10 ^ 49)
            ''SI'' PInf ''Xe'' (Some 1) None)
   \<and> rate_elastic env_example (Fin (erec_at 800000)) mw_example (1 / 10 ^ 49) ''SI'' PInf None
        ''Xe'' None (Some 1) None () = Inr (Fin 0)"
proof -
  have v: "(300000::real) \<noteq> 0" by simp
  obtain r where
    "sigma_SI units_SI (Fin (erec_at 100000)) 300000 mw_example (1 / 10 ^ 49) ''Xe'' = Inr r"
    using sigma_SI_value[OF units_SI_ok mw_example_pos v Xe_weight,
            of "Fin (erec_at 100000)" "1 / 10 ^ 49"] by blast
  then have "sigma_erec units_SI sd_example (Fin (erec_at 100000)) 300000 mw_example
               (1 / 10 ^ 49) ''SI'' PInf ''Xe'' (Some 1) None = Inr r"
    by (simp add: sigma_erec_def mediator_factor_def f_mul_one)
  moreover have "rate_elastic env_example (Fin (erec_at 800000))
        mw_example (1 / 10 ^ 49) ''SI'' PInf None ''Xe'' None (Some 1) None () = Inr (Fin 0)"
    by (rule rate_early_example) simp
  ultimately show ?thesis by simp
qed

subsection \<open>Materials outside the table\<close>

lemma rate_elastic_missing:
  assumes "ATOMIC_WEIGHT material = None"
  shows "rate_elastic env erec mw sigma_nucleon interaction m_med t material halo
           n q_ref quad_kwargs = Inl (KeyError (Name material))"
  by (simp add: rate_elastic_def vmin_elastic_def mn_missing[OF assms] Let_def)

lemma sigma_SI_missing:
  assumes "ATOMIC_WEIGHT material = None"
  shows "sigma_erec u sd erec v mw sigma_nucleon ''SI'' m_med material n q_ref
           = Inl (KeyError (Name material))"
  by (simp add: sigma_erec_def sigma_SI_def mu_nucleus_def mn_missing[OF assms])

lemma sigma_SD_missing:
  assumes "ATOMIC_WEIGHT material = None" "startswith interaction ''SD''"
  shows "sigma_erec u sd erec v mw sigma_nucleon interaction m_med material n q_ref
           = Inl (NotImplementedError material)"
proof -
  have "material \<noteq> ''Xe''" using assms(1) by (auto simp: ATOMIC_WEIGHT_def)
  moreover have "interaction \<noteq> ''SI''"
    using assms(2) by (auto simp: startswith_def)
  ultimately show ?thesis using assms(2) by (simp add: sigma_erec_def sigma_SD_def)
qed

text \<open>
  Claim C10, as amended. For a material that is not in \<^verbatim>\<open>ATOMIC_WEIGHT\<close>, the nucleus-mass
  lookup \<^verbatim>\<open>mn\<close> raises \<^verbatim>\<open>KeyError\<close> with the material as key, and so do every call of
  \<^verbatim>\<open>rate_elastic\<close> and every call of \<^verbatim>\<open>sigma_erec\<close> with the interaction \<^verbatim>\<open>'SI'\<close>.
  A call of \<^verbatim>\<open>sigma_erec\<close> with a label that starts with \<^verbatim>\<open>'SD'\<close> raises
  \<^verbatim>\<open>NotImplementedError\<close> instead, the unsupported-configuration error.
\<close>

theorem missing_material_errors:
  assumes "ATOMIC_WEIGHT material = None"
  shows "mn u material = Inl (KeyError (Name material))
       \<and> rate_elastic env erec mw sigma_nucleon interaction m_med t material halo
           n q_ref quad_kwargs = Inl (KeyError (Name material))
       \<and> sigma_erec u sd erec v mw sigma_nucleon ''SI'' m_med material n q_ref
           = Inl (KeyError (Name material))
       \<and> sigma_erec u sd erec v mw sigma_nucleon (''SD'' @ label) m_med material n q_ref
           = Inl (NotImplementedError material)"
proof -
  have "startswith (''SD'' @ label) ''SD''" by (simp add: startswith_def)
  then show ?thesis
    by (intro conjI mn_missing[OF assms] rate_elastic_missing[OF assms]
          sigma_SI_missing[OF assms] sigma_SD_missing[OF assms])
qed

theorem missing_material_errors_witness:
  "ATOMIC_WEIGHT ''Pb'' = None
   \<and> mn units_SI ''Pb'' = Inl (KeyError (Name ''Pb''))
   \<and> rate_elastic env_example (Fin (erec_at 100000)) mw_example (1 / 10 ^ 49) ''SI'' PInf None
        ''Pb'' None None None () = Inl (KeyError (Name ''Pb''))
   \<and> sigma_erec units_SI sd_example (Fin (erec_at 100000)) 300000 mw_example (1 / 10 ^ 49)
        ''SI'' PInf ''Pb'' None None = Inl (KeyError (Name ''Pb''))
   \<and> sigma_erec units_SI sd_example (Fin (erec_at 100000)) 300000 mw_example (1 / 10 ^ 49)
        (''SD'' @ ''_n_central'') PInf ''Pb'' None None = Inl (NotImplementedError ''Pb'')"
proof -
  have a: "ATOMIC_WEIGHT ''Pb'' = None" by (simp add: ATOMIC_WEIGHT_def)
  note r = missing_material_errors[OF a, of units_SI env_example "Fin (erec_at 100000)" mw_example "1 / 10 ^ 49"
                "''SI''" PInf None None None None "()" sd_example 300000 "''_n_central''"]
  show ?thesis using a r by blast
qed

text \<open>
  Claim C10 as first stated has every cross-section call with such a material raise
  \<^verbatim>\<open>KeyError\<close>. For lead, which is not in the table, the label \<^verbatim>\<open>'SD_n_central'\<close> gives
  \<^verbatim>\<open>NotImplementedError\<close> and the label \<^verbatim>\<open>'XYZ'\<close> the unsupported-interaction
  \<^verbatim>\<open>ValueError\<close>: both checks come before any lookup of the material.
\<close>

theorem missing_material_counterexample:
  "ATOMIC_WEIGHT ''Pb'' = None
   \<and> sigma_erec units_SI sd_example (Fin (erec_at 100000)) 300000 mw_example (1 / 10 ^ 49)
       ''SD_n_central'' PInf ''Pb'' None None = Inl (NotImplementedError ''Pb'')
   \<and> sigma_erec units_SI sd_example (Fin (erec_at 100000)) 300000 mw_example (1 / 10 ^ 49)
       ''XYZ'' PInf ''Pb'' None None = Inl (ValueError (Unsupported_Interaction ''XYZ''))"
proof -
  have a: "ATOMIC_WEIGHT ''Pb'' = None" by (simp add: ATOMIC_WEIGHT_def)
  have s: "startswith ''SD_n_central'' ''SD''" by (simp add: startswith_def)
  have x: "''XYZ'' \<noteq> ''SI''" "\<not> startswith ''XYZ'' ''SD''" by (simp_all add: startswith_def)
  show ?thesis
    by (intro conjI a sigma_SD_missing[OF a s] sigma_unsupported[OF x])
qed

subsection \<open>Vectorised calls\<close>

lemma each_list_all2: "each f xs = Inr ys \<longleftrightarrow> list_all2 (\<lambda>x y. f x = Inr y) xs ys"
proof (induction xs arbitrary: ys)
  case Nil
  then show ?case by auto
next
  case (Cons x xs)
  show ?case
    unfolding list_all2_Cons1 Cons.IH[symmetric]
    by (cases "f x"; cases "each f xs") auto
qed

lemma each_nth:
  "each f xs = Inr ys \<longleftrightarrow> length ys = length xs \<and> (\<forall>i<length xs. f (xs ! i) = Inr (ys ! i))"
  by (auto simp: each_list_all2 list_all2_conv_all_nth)

lemma each_first_error:
  assumes "i < length xs" "f (xs ! i) = Inl e" "\<forall>j<i. \<exists>y. f (xs ! j) = Inr y"
  shows "each f xs = Inl e"
  using assms
proof (induction xs arbitrary: i)
  case Nil
  then show ?case by simp
next
  case (Cons x xs)
  show ?case
  proof (cases i)
    case 0
    then show ?thesis using Cons.prems by simp
  next
    case (Suc k)
    then obtain y where y: "f x = Inr y" using Cons.prems(3) by auto
    have "each f xs = Inl e"
      using Cons.prems Suc by (intro Cons.IH[of k]) auto
    then show ?thesis by (simp add: y)
  qed
qed

text \<open>
  Claim C9. For an array of \<open>N\<close> recoil energies and fixed other parameters: when the scalar
  call on the \<open>i\<close>-th energy returns \<open>ys ! i\<close>, for each \<open>i < N\<close>, the vectorised call returns
  the array \<open>ys\<close> of these \<open>N\<close> values, in the same order. On the model the values are equal,
  so they agree within every tolerance.
\<close>

theorem rate_elastic_vectorized_elementwise:
  assumes "length ys = length es"
      and "\<forall>i<length es. rate_elastic env (es ! i) mw sigma_nucleon interaction m_med t material
                            halo n q_ref quad_kwargs = Inr (ys ! i)"
  shows "rate_elastic_vectorized env (Array es) mw sigma_nucleon interaction m_med t material
           halo n q_ref quad_kwargs = Inr (Array ys)"
proof -
  have "each (\<lambda>e. rate_elastic env e mw sigma_nucleon interaction m_med t material halo n q_ref
                  quad_kwargs) es = Inr ys"
    using assms by (simp add: each_nth)
  then show ?thesis by (simp add: rate_elastic_vectorized_def vectorize_first_def)
qed

theorem rate_elastic_vectorized_elementwise_witness:
  "length [Fin 0, Fin 0] = length [Fin (erec_at 800000), Fin (erec_at 900000)]
   \<and> rate_elastic env_example (Fin (erec_at 800000)) mw_example (1 / 10 ^ 49) ''SI'' PInf None
        ''Xe'' None None None () = Inr (Fin 0)
   \<and> rate_elastic env_example (Fin (erec_at 900000)) mw_example (1 / 10 ^ 49) ''SI'' PInf None
        ''Xe'' None None None () = Inr (Fin 0)
   \<and> rate_elastic_vectorized env_example (Array [Fin (erec_at 800000), Fin (erec_at 900000)])
        mw_example (1 / 10 ^ 49) ''SI'' PInf None ''Xe'' None None None ()
        = Inr (Array [Fin 0, Fin 0])"
proof -
  have l: "length [Fin 0, Fin 0] = length [Fin (erec_at 800000), Fin (erec_at 900000)]"
    by simp
  have z1: "rate_elastic env_example (Fin (erec_at 800000)) mw_example (1 / 10 ^ 49) ''SI'' PInf
              None ''Xe'' None None None () = Inr (Fin 0)"
    by (rule rate_early_example) simp
  have z2: "rate_elastic env_example (Fin (erec_at 900000)) mw_example (1 / 10 ^ 49) ''SI'' PInf
              None ''Xe'' None None None () = Inr (Fin 0)"
    by (rule rate_early_example) simp
  have a: "\<forall>i<length [Fin (erec_at 800000), Fin (erec_at 900000)].
         rate_elastic env_example ([Fin (erec_at 800000), Fin (erec_at 900000)] ! i) mw_example
           (1 / 10 ^ 49) ''SI'' PInf None ''Xe'' None None None () = Inr ([Fin 0, Fin 0] ! i)"
    using z1 z2 by (auto simp: less_Suc_eq numeral_2_eq_2)
  show ?thesis by (intro conjI l z1 z2 rate_elastic_vectorized_elementwise[OF l a])
qed

end
